theory Spec2Isabelle
  imports Complex_Main "HOL-Library.Word"
begin

section \<open>Python errors\<close>

text \<open>
  Exceptions of the Python source are values: every function that can raise returns
  \<open>py_error + 'a\<close>, with \<open>Inl\<close> for the exception.
\<close>

datatype py_error =
  IndexError | ValueError | AssertionError | KeyError | TypeError | OverflowError

section \<open>SWC reader: \<open>_build_parents\<close> (neurax/utils/swc.py)\<close>

text \<open>
  A branch is the list of its SWC node indices, Python integers of any size; \<open>b[0]\<close> is
  the node the branch starts from and \<open>b[-1]\<close> the node it ends in.

  \<^verbatim>\<open>all_last_inds = [b[-1] for b in all_branches]\<close> raises IndexError on an empty
  branch.
\<close>

definition all_last_inds_of :: "int list list \<Rightarrow> py_error + int list" where
  "all_last_inds_of all_branches =
     (if [] \<in> set all_branches then Inl IndexError else Inr (map last all_branches))"

text \<open>
  \<^verbatim>\<open>np.asarray\<close> of a list of Python integers chooses the element type from the
  values: \<open>int64\<close> when all fit it, \<open>uint64\<close> when all lie from \<open>2^63\<close> on and below
  \<open>2^64\<close>, \<open>float64\<close> when entries that fit \<open>int64\<close> meet entries that only fit
  \<open>uint64\<close>, and Python objects when an entry fits neither.
\<close>

definition in_int64 :: "int \<Rightarrow> bool" where
  "in_int64 x \<longleftrightarrow> - (2 ^ 63) \<le> x \<and> x < 2 ^ 63"

definition in_uint64 :: "int \<Rightarrow> bool" where
  "in_uint64 x \<longleftrightarrow> 0 \<le> x \<and> x < 2 ^ 64"

datatype np_dtype = Int64 | UInt64 | Float64 | Object

definition np_dtype_of :: "int list \<Rightarrow> np_dtype" where
  "np_dtype_of xs =
     (if list_ex (\<lambda>x. \<not> in_int64 x \<and> \<not> in_uint64 x) xs then Object
      else if list_all in_int64 xs then Int64
      else if list_all (\<lambda>x. \<not> in_int64 x) xs then UInt64
      else Float64)"

text \<open>
  The \<open>float64\<close> nearest to an integer between \<open>-2^63\<close> and \<open>2^64\<close>, ties to the even
  mantissa. Below \<open>2^53\<close> in size the integer is kept; from there on a \<open>float64\<close>
  holds the 53 leading bits, and \<open>k\<close> counts the bits that are cut.
\<close>

definition f64_of_int :: "int \<Rightarrow> int" where
  "f64_of_int x =
     (let a = \<bar>x\<bar>;
          k = length (filter (\<lambda>j. 2 ^ (53 + j) \<le> a) [0..<11]);
          q = a div 2 ^ k;
          r = a mod 2 ^ k;
          q' = (if 2 * r > 2 ^ k \<or> (2 * r = 2 ^ k \<and> odd q) then q + 1 else q)
      in sgn x * q' * 2 ^ k)"

text \<open>The positions of a list whose entry satisfies a test, ascending.\<close>

definition positions :: "('a \<Rightarrow> bool) \<Rightarrow> 'a list \<Rightarrow> nat list" where
  "positions P xs = filter (\<lambda>j. P (xs ! j)) [0..<length xs]"

text \<open>
  \<^verbatim>\<open>np.where(np.asarray(xs) == v)[0]\<close> for a Python integer \<open>v\<close>. An \<open>int64\<close> array
  is compared exactly with a \<open>v\<close> that fits \<open>int64\<close>. A \<open>float64\<close> array holds the
  entries rounded, and a \<open>v\<close> between \<open>-2^63\<close> and \<open>2^64\<close> is rounded the same way
  before the comparison. What numpy does on a \<open>uint64\<close> or object array, or with a
  \<open>v\<close> outside these ranges, is left to the parameter \<open>N\<close>: numpy is not among the
  source files, and its versions differ there.
\<close>

definition np_where_eq ::
  "(int list \<Rightarrow> int \<Rightarrow> py_error + nat list) \<Rightarrow> int list \<Rightarrow> int \<Rightarrow> py_error + nat list" where
  "np_where_eq N xs v =
     (if xs = [] then Inr []
      else if np_dtype_of xs = Int64 \<and> in_int64 v then Inr (positions (\<lambda>x. x = v) xs)
      else if np_dtype_of xs = Float64 \<and> (in_int64 v \<or> in_uint64 v)
        then Inr (positions (\<lambda>x. f64_of_int x = f64_of_int v) xs)
      else N xs v)"

text \<open>
  The body of the loop for branch \<open>i\<close>. The test \<^verbatim>\<open>len(ind) > 0 and ind != i\<close>
  compares the whole index array with \<open>i\<close>; its truth value is that of the one
  comparison when the array has one element, and numpy raises ValueError when it has
  more.
\<close>

definition parent_of ::
  "(int list \<Rightarrow> int \<Rightarrow> py_error + nat list) \<Rightarrow> int list \<Rightarrow> nat \<Rightarrow> int list \<Rightarrow> py_error + int" where
  "parent_of N all_last_inds i b =
     (case b of
        [] \<Rightarrow> Inl IndexError
      | parent_ind # _ \<Rightarrow>
          (case np_where_eq N all_last_inds parent_ind of
             Inl e \<Rightarrow> Inl e
           | Inr ind \<Rightarrow>
               if length ind > 0 then
                 (if length ind \<noteq> 1 then Inl ValueError
                  else if hd ind \<noteq> i then Inr (int (hd ind))
                  else Inr (- 1))
               else Inr (- 1)))"

fun build_parents_loop ::
  "(int list \<Rightarrow> int \<Rightarrow> py_error + nat list) \<Rightarrow> int list \<Rightarrow> nat \<Rightarrow> int list list
     \<Rightarrow> py_error + int list" where
  "build_parents_loop N all_last_inds i [] = Inr []"
| "build_parents_loop N all_last_inds i (b # bs) =
     (case parent_of N all_last_inds i b of
        Inl e \<Rightarrow> Inl e
      | Inr p \<Rightarrow>
          (case build_parents_loop N all_last_inds (Suc i) bs of
             Inl e \<Rightarrow> Inl e
           | Inr ps \<Rightarrow> Inr (p # ps)))"

definition build_parents ::
  "(int list \<Rightarrow> int \<Rightarrow> py_error + nat list) \<Rightarrow> int list list \<Rightarrow> py_error + int list" where
  "build_parents N all_branches =
     (case all_last_inds_of all_branches of
        Inl e \<Rightarrow> Inl e
      | Inr all_last_inds \<Rightarrow> build_parents_loop N all_last_inds 0 all_branches)"

section \<open>Results with errors\<close>

definition bind_error :: "'e + 'a \<Rightarrow> ('a \<Rightarrow> 'e + 'b) \<Rightarrow> 'e + 'b" where
  "bind_error m f = (case m of Inl e \<Rightarrow> Inl e | Inr x \<Rightarrow> f x)"

text \<open>A list comprehension whose body can raise: the first exception, left to right, wins.\<close>

fun map_error :: "('a \<Rightarrow> 'e + 'b) \<Rightarrow> 'a list \<Rightarrow> 'e + 'b list" where
  "map_error f [] = Inr []"
| "map_error f (x # xs) =
     bind_error (f x) (\<lambda>y. bind_error (map_error f xs) (\<lambda>ys. Inr (y # ys)))"

text \<open>\<open>xs[0]\<close> raises IndexError on an empty sequence.\<close>

definition item0 :: "'a list \<Rightarrow> py_error + 'a" where
  "item0 xs = (if xs = [] then Inl IndexError else Inr (hd xs))"

text \<open>\<open>d[k]\<close> on a dictionary raises KeyError when the key is missing.\<close>

definition getitem :: "('k \<rightharpoonup> 'v) \<Rightarrow> 'k \<Rightarrow> py_error + 'v" where
  "getitem d k = (case d k of Some v \<Rightarrow> Inr v | None \<Rightarrow> Inl KeyError)"

section \<open>The network: data (neurax/modules/network.py)\<close>

text \<open>
  A cell, as far as \<open>Network\<close> reads it: its compartments per branch \<open>nseg\<close>, its
  branch count, its parent array over branches (\<open>-1\<close> for the root) and its groupings
  of branches by level (one index array per level). The parent array is a jax array
  of 32-bit integers (jax's default integer type).
\<close>

record cell =
  cell_nseg :: nat
  cell_nbranches :: nat
  cell_parents :: "32 word list"
  cell_parents_in_each_level :: "int list list"
  cell_branches_in_each_level :: "int list list"

text \<open>The \<open>nodes\<close> data frame: three columns of equal length.\<close>

record nodes_table =
  comp_index :: "nat list"
  branch_index :: "nat list"
  cell_index :: "nat list"

text \<open>
  The state vector \<open>u\<close> and the parameters: dictionaries from names to arrays. Floats
  are modelled as reals.
\<close>

type_synonym state = "string \<rightharpoonup> real list"

text \<open>
  The attributes of a \<open>Network\<close> object. \<open>nodes\<close> is \<open>None\<close> while no such
  attribute is bound (before \<open>init_morph\<close>); \<open>branch_conds_fwd\<close> is \<open>None\<close> when the
  attribute holds Python's \<open>None\<close>. The other attributes hold their values: the model
  describes a network on which they are bound. The last seven are bound outside
  \<open>network.py\<close> (by the base class \<open>Module\<close>); their element types are parameters:
  \<open>'ch\<close> a channel, \<open>'syn\<close> the synapse channels, \<open>'ci\<close> an index structure of a
  connectivity, \<open>'g\<close> the conductances of a cell.
\<close>

record ('ch, 'syn, 'ci, 'g) network =
  cells :: "cell list"
  nseg :: nat
  pre_syn_inds :: "'ci list"
  pre_syn_cell_inds :: "'ci list"
  grouped_post_syn_inds :: "'ci list"
  grouped_post_syns :: "'ci list"
  initialized_morph :: bool
  initialized_conds :: bool
  nbranches :: "nat list"
  cumsum_num_branches :: "32 word list"
  max_num_kids :: nat
  comb_parents :: "32 word list"
  comb_parents_in_each_level :: "int list list"
  comb_branches_in_each_level :: "int list list"
  comb_cum_kid_inds :: "32 word list"
  comb_cum_kid_inds_in_each_level :: "32 word list list"
  nodes :: "nodes_table option"
  coupling_conds_fwd :: "'g list"
  coupling_conds_bwd :: "'g list"
  branch_conds_fwd :: "'g list option"
  branch_conds_bwd :: "'g list"
  summed_coupling_conds :: "'g list"
  branches :: "'ch list list list"
  params :: state
  syn_channels :: 'syn
  parents :: "int list"
  kid_inds_in_each_level :: "int list list"
  parents_in_each_level :: "int list list"
  branches_in_each_level :: "int list list"

section \<open>\<open>Network.__getattr__\<close>\<close>

datatype ('ch, 'syn, 'ci, 'g) cell_view =
  CellView "('ch, 'syn, 'ci, 'g) network" nodes_table

text \<open>
  Python calls \<open>__getattr__\<close> for a name that ordinary lookup does not find. Its body
  is \<^verbatim>\<open>assert key == "cell"; return CellView(self, self.nodes)\<close>. When no \<open>nodes\<close>
  attribute is bound, reading \<open>self.nodes\<close> enters \<open>__getattr__\<close> again with the key
  \<open>nodes\<close>, whose assertion fails.
\<close>

definition network_getattr ::
  "('ch, 'syn, 'ci, 'g) network \<Rightarrow> string \<Rightarrow> py_error + ('ch, 'syn, 'ci, 'g) cell_view" where
  "network_getattr self key =
     (if key \<noteq> ''cell'' then Inl AssertionError
      else (case nodes self of
              None \<Rightarrow> Inl AssertionError
            | Some tbl \<Rightarrow> Inr (CellView self tbl)))"

section \<open>\<open>Network.init_morph\<close>\<close>

text \<open>
  The functions \<open>init_morph\<close> imports from \<open>neurax.cell\<close>, and indexing of a jax array
  by an index array, are not in the source files; they are parameters, and each may
  raise. \<open>compute_index_of_kid\<close> stands for \<^verbatim>\<open>jnp.asarray(_compute_index_of_kid(p))\<close>.
  The flag of \<open>merge_cells\<close> is \<open>None\<close> where the call leaves \<open>exclude_first\<close> out.
  \<open>init_morph\<close> assigns the attributes one after the other; the model returns the
  object with all of them assigned, or the exception.
\<close>

record morph_ext =
  merge_cells :: "32 word list \<Rightarrow> int list list list \<Rightarrow> bool option \<Rightarrow> py_error + int list list"
  compute_index_of_kid :: "32 word list \<Rightarrow> py_error + 32 word list"
  cum_indizes_of_kids ::
    "32 word list list \<Rightarrow> nat \<Rightarrow> int list \<Rightarrow> py_error + 32 word list list"
  jnp_getitem :: "32 word list \<Rightarrow> int list \<Rightarrow> py_error + 32 word list"

text \<open>
  \<^verbatim>\<open>jnp.asarray\<close> of a list of Python integers that are no less than 0: an array of
  32-bit integers; a value from \<open>2^31\<close> on does not fit and raises OverflowError.
\<close>

definition jnp_asarray :: "nat list \<Rightarrow> py_error + 32 word list" where
  "jnp_asarray xs =
     (if list_ex (\<lambda>n. 2 ^ 31 \<le> n) xs then Inl OverflowError else Inr (map of_nat xs))"

text \<open>\<^verbatim>\<open>jnp.cumsum\<close>: running sums, one per entry, in the 32 bits of the array.\<close>

fun cumsum_from :: "32 word \<Rightarrow> 32 word list \<Rightarrow> 32 word list" where
  "cumsum_from acc [] = []"
| "cumsum_from acc (x # xs) = (acc + x) # cumsum_from (acc + x) xs"

definition jnp_cumsum :: "32 word list \<Rightarrow> 32 word list" where
  "jnp_cumsum xs = cumsum_from 0 xs"

text \<open>Line 57: \<^verbatim>\<open>jnp.cumsum(jnp.asarray([0] + self.nbranches))\<close>.\<close>

definition cumsum_num_branches_of :: "nat list \<Rightarrow> py_error + 32 word list" where
  "cumsum_num_branches_of nbs = bind_error (jnp_asarray (0 # nbs)) (\<lambda>a. Inr (jnp_cumsum a))"

text \<open>
  \<^verbatim>\<open>p.at[1:].add(x)\<close>: \<open>x\<close> added to every entry but the first, in the 32 bits of
  the array.
\<close>

definition at_1_add :: "32 word list \<Rightarrow> 32 word \<Rightarrow> 32 word list" where
  "at_1_add p x = (case p of [] \<Rightarrow> [] | p0 # rest \<Rightarrow> p0 # map (\<lambda>v. v + x) rest)"

text \<open>\<^verbatim>\<open>jnp.concatenate\<close> raises ValueError on an empty list of arrays.\<close>

definition jnp_concatenate :: "'a list list \<Rightarrow> py_error + 'a list" where
  "jnp_concatenate xss = (if xss = [] then Inl ValueError else Inr (concat xss))"

text \<open>\<^verbatim>\<open>pd.DataFrame(dict(...))\<close> raises ValueError unless the columns have one length.\<close>

definition DataFrame :: "nat list \<Rightarrow> nat list \<Rightarrow> nat list \<Rightarrow> py_error + nodes_table" where
  "DataFrame ci bi cli =
     (if length ci = length bi \<and> length bi = length cli
      then Inr \<lparr>comp_index = ci, branch_index = bi, cell_index = cli\<rparr>
      else Inl ValueError)"

definition comb_parents_of :: "32 word list \<Rightarrow> 32 word list list \<Rightarrow> py_error + 32 word list" where
  "comb_parents_of cumsum ps =
     jnp_concatenate (map (\<lambda>(i, p). at_1_add p (cumsum ! i)) (enumerate 0 ps))"

definition nodes_of :: "nat \<Rightarrow> nat list \<Rightarrow> py_error + nodes_table" where
  "nodes_of n nbs =
     DataFrame
       [0..<n * sum_list nbs]
       (map (\<lambda>i. i div n) [0..<n * sum_list nbs])
       (concat (map (\<lambda>(i, b). replicate (n * b) i) (enumerate 0 nbs)))"

definition init_morph ::
  "morph_ext \<Rightarrow> ('ch, 'syn, 'ci, 'g) network \<Rightarrow> py_error + ('ch, 'syn, 'ci, 'g) network" where
  "init_morph X self =
     (let nbs = map cell_nbranches (cells self) in
      bind_error (cumsum_num_branches_of nbs) (\<lambda>cumsum.
      bind_error (comb_parents_of cumsum (map cell_parents (cells self))) (\<lambda>cp.
      bind_error (merge_cells X cumsum (map cell_parents_in_each_level (cells self)) None) (\<lambda>cpl.
      bind_error (merge_cells X cumsum (map cell_branches_in_each_level (cells self)) (Some False)) (\<lambda>cbl.
      bind_error (map_error (\<lambda>c. compute_index_of_kid X (cell_parents c)) (cells self)) (\<lambda>kids.
      bind_error (jnp_concatenate kids) (\<lambda>comb_ind_of_kids.
      bind_error (cum_indizes_of_kids X [comb_ind_of_kids] 4 [- 1, 0]) (\<lambda>cki.
      bind_error (item0 cki) (\<lambda>cki0.
      bind_error (map_error (jnp_getitem X comb_ind_of_kids) cbl) (\<lambda>kids_in_each_level.
      bind_error (cum_indizes_of_kids X kids_in_each_level 4 [0]) (\<lambda>ckil.
      bind_error (nodes_of (nseg self) nbs) (\<lambda>tbl.
      Inr (self\<lparr>nbranches := nbs,
                cumsum_num_branches := cumsum,
                max_num_kids := 4,
                comb_parents := cp,
                comb_parents_in_each_level := cpl,
                comb_branches_in_each_level := cbl,
                comb_cum_kid_inds := cki0,
                comb_cum_kid_inds_in_each_level := ckil,
                nodes := Some tbl,
                initialized_morph := True\<rparr>)))))))))))))"

section \<open>\<open>Network.step\<close>\<close>

text \<open>
  \<open>step\<close> works on the object: a computation takes the object and returns the object
  as it leaves it, with its result or the exception it raises.
\<close>

type_synonym ('s, 'a) prog = "'s \<Rightarrow> 's \<times> (py_error + 'a)"

definition bind_prog :: "('s, 'a) prog \<Rightarrow> ('a \<Rightarrow> ('s, 'b) prog) \<Rightarrow> ('s, 'b) prog" where
  "bind_prog m f =
     (\<lambda>s. case m s of (s', r) \<Rightarrow> (case r of Inl e \<Rightarrow> (s', Inl e) | Inr x \<Rightarrow> f x s'))"

text \<open>Reading an attribute of the object; a value or an exception that involves no object.\<close>

definition attr :: "('s \<Rightarrow> 'a) \<Rightarrow> ('s, 'a) prog" where
  "attr f = (\<lambda>s. (s, Inr (f s)))"

definition lift_error :: "py_error + 'a \<Rightarrow> ('s, 'a) prog" where
  "lift_error r = (\<lambda>s. (s, r))"


text \<open>The keyword arguments of the call of \<open>step_voltages\<close>, in the order of the call.\<close>

record 'g solve_args =
  sv_voltages :: "real list list"
  sv_voltage_terms :: "real list list"
  sv_constant_terms :: "real list list"
  sv_coupling_conds_bwd :: "'g list"
  sv_coupling_conds_fwd :: "'g list"
  sv_summed_coupling_conds :: "'g list"
  sv_branch_cond_fwd :: "'g list option"
  sv_branch_cond_bwd :: "'g list"
  sv_num_branches :: "nat list"
  sv_parents :: "int list"
  sv_kid_inds_in_each_level :: "int list list"
  sv_max_num_kids :: nat
  sv_parents_in_each_level :: "int list list"
  sv_branches_in_each_level :: "int list list"
  sv_tridiag_solver :: string
  sv_delta_t :: real

text \<open>
  What \<open>step\<close> calls and the source files do not define. \<open>init_branch_conds\<close>,
  \<open>step_channels\<close> and \<open>step_voltages\<close> are methods of the base class, called on
  the object; \<open>get_external_input\<close> and \<open>_step_synapse\<close> are functions of a module
  that are handed dictionaries and lists of the object. All five are parameters that
  take the object and return it as they leave it, with their result or exception.
\<close>

record ('ch, 'syn, 'ci, 'g) step_ext =
  init_branch_conds :: "(('ch, 'syn, 'ci, 'g) network, unit) prog"
  step_channels ::
    "state \<Rightarrow> real \<Rightarrow> 'ch list \<Rightarrow> state
       \<Rightarrow> (('ch, 'syn, 'ci, 'g) network, state list \<times> real list \<times> real list) prog"
  get_external_input ::
    "real list \<Rightarrow> int list \<Rightarrow> real list \<Rightarrow> real list \<Rightarrow> real list
       \<Rightarrow> (('ch, 'syn, 'ci, 'g) network, real list) prog"
  step_synapse ::
    "state \<Rightarrow> 'syn \<Rightarrow> state \<Rightarrow> real \<Rightarrow> 32 word list \<Rightarrow> 'ci list \<Rightarrow> 'ci list \<Rightarrow> 'ci list
       \<Rightarrow> 'ci list \<Rightarrow> nat
       \<Rightarrow> (('ch, 'syn, 'ci, 'g) network, state \<times> real list \<times> real list) prog"
  step_voltages :: "'g solve_args \<Rightarrow> (('ch, 'syn, 'ci, 'g) network, real list list) prog"

text \<open>
  \<^verbatim>\<open>jnp.reshape(a, shape)\<close> for a shape of two entries. An entry of a shape is an
  integer; \<open>step\<close> writes the shape \<^verbatim>\<open>(nbranches, nseg_per_branch)\<close>, whose first
  entry is the list that \<open>init_morph\<close> assigns to \<open>self.nbranches\<close> (line 56). jax
  raises TypeError for an entry that is no integer, and for a shape whose size is not
  that of the array.
\<close>

datatype py_dim = IntDim nat | ListDim "nat list"

definition jnp_reshape :: "real list \<Rightarrow> py_dim \<times> py_dim \<Rightarrow> py_error + real list list" where
  "jnp_reshape a shape =
     (case shape of
        (IntDim r, IntDim c) \<Rightarrow>
          if length a = r * c then Inr (map (\<lambda>i. take c (drop (i * c) a)) [0..<r])
          else Inl TypeError
      | _ \<Rightarrow> Inl TypeError)"

text \<open>
  \<open>+\<close> on two arrays of one shape adds entry by entry. Both operands in \<open>step\<close> come
  out of \<open>jnp.reshape\<close> with the same target shape; on shapes that differ the model
  raises.
\<close>

definition add_2d :: "real list list \<Rightarrow> real list list \<Rightarrow> py_error + real list list" where
  "add_2d a b =
     (if map length a = map length b then Inr (map2 (map2 (+)) a b) else Inl ValueError)"

text \<open>The local variables of \<open>step\<close> when it reaches the call of \<open>step_voltages\<close>.\<close>

record step_locals =
  l_nbranches :: "nat list"
  l_nseg_per_branch :: nat
  l_voltages :: "real list"
  l_new_channel_states :: "state list"
  l_v_terms :: "real list"
  l_const_terms :: "real list"
  l_i_ext :: "real list"
  l_new_syn_states :: state
  l_syn_voltage_terms :: "real list"
  l_syn_constant_terms :: "real list"

text \<open>Lines 135 to 165: everything before the call of \<open>step_voltages\<close>.\<close>

definition step_prepare ::
  "('ch, 'syn, 'ci, 'g) step_ext \<Rightarrow> state \<Rightarrow> real \<Rightarrow> int list \<Rightarrow> real list
     \<Rightarrow> (('ch, 'syn, 'ci, 'g) network, step_locals) prog" where
  "step_prepare E u dt i_inds i_current =
     bind_prog (attr nbranches) (\<lambda>nbs.
     bind_prog (attr nseg) (\<lambda>nseg_per_branch.
     bind_prog (\<lambda>self. if branch_conds_fwd self = None then init_branch_conds E self
                       else (self, Inr ())) (\<lambda>_.
     bind_prog (lift_error (getitem u ''voltages'')) (\<lambda>voltages.
     bind_prog (attr branches) (\<lambda>bs.
     bind_prog (lift_error (item0 bs)) (\<lambda>branch0.
     bind_prog (lift_error (item0 branch0)) (\<lambda>channels.
     bind_prog (attr params) (\<lambda>ps.
     bind_prog (step_channels E u dt channels ps) (\<lambda>(new_channel_states, v_terms, const_terms).
     bind_prog (attr params) (\<lambda>ps.
     bind_prog (lift_error (getitem ps ''radius'')) (\<lambda>radius.
     bind_prog (attr params) (\<lambda>ps.
     bind_prog (lift_error (getitem ps ''length'')) (\<lambda>len.
     bind_prog (get_external_input E voltages i_inds i_current radius len) (\<lambda>i_ext.
     bind_prog (\<lambda>self.
         step_synapse E u (syn_channels self) (params self) dt (cumsum_num_branches self)
           (pre_syn_cell_inds self) (pre_syn_inds self) (grouped_post_syn_inds self)
           (grouped_post_syns self) (nseg self) self)
       (\<lambda>(new_syn_states, syn_voltage_terms, syn_constant_terms).
     lift_error (Inr
       \<lparr>l_nbranches = nbs, l_nseg_per_branch = nseg_per_branch,
        l_voltages = voltages, l_new_channel_states = new_channel_states,
        l_v_terms = v_terms, l_const_terms = const_terms, l_i_ext = i_ext,
        l_new_syn_states = new_syn_states, l_syn_voltage_terms = syn_voltage_terms,
        l_syn_constant_terms = syn_constant_terms\<rparr>))))))))))))))))"

text \<open>
  Lines 167 to 185: the arguments of \<open>step_voltages\<close>, evaluated left to right; the
  reshapes come first, the attributes of the object after them.
\<close>

definition step_voltages_args ::
  "step_locals \<Rightarrow> real \<Rightarrow> (('ch, 'syn, 'ci, 'g) network, 'g solve_args) prog" where
  "step_voltages_args l dt =
     (let shape = (ListDim (l_nbranches l), IntDim (l_nseg_per_branch l)) in
      bind_prog (lift_error (jnp_reshape (l_voltages l) shape)) (\<lambda>voltages.
      bind_prog (lift_error (jnp_reshape (l_v_terms l) shape)) (\<lambda>voltage_terms.
      bind_prog (lift_error (jnp_reshape (l_const_terms l) shape)) (\<lambda>c.
      bind_prog (lift_error (jnp_reshape (l_i_ext l) shape)) (\<lambda>i.
      bind_prog (lift_error (add_2d c i)) (\<lambda>constant_terms.
      attr (\<lambda>self.
        \<lparr>sv_voltages = voltages,
         sv_voltage_terms = voltage_terms,
         sv_constant_terms = constant_terms,
         sv_coupling_conds_bwd = coupling_conds_bwd self,
         sv_coupling_conds_fwd = coupling_conds_fwd self,
         sv_summed_coupling_conds = summed_coupling_conds self,
         sv_branch_cond_fwd = branch_conds_fwd self,
         sv_branch_cond_bwd = branch_conds_bwd self,
         sv_num_branches = nbranches self,
         sv_parents = parents self,
         sv_kid_inds_in_each_level = kid_inds_in_each_level self,
         sv_max_num_kids = 4,
         sv_parents_in_each_level = parents_in_each_level self,
         sv_branches_in_each_level = branches_in_each_level self,
         sv_tridiag_solver = ''thomas'',
         sv_delta_t = dt\<rparr>)))))))"

text \<open>
  \<open>step\<close>: the object as the call leaves it, and the new state or the exception.
  \<open>final_state\<close> is the first of the new channel states, with the entry \<open>voltages\<close>
  assigned; \<open>flatten(order="C")\<close> puts the rows one after the other.
\<close>

definition step ::
  "('ch, 'syn, 'ci, 'g) step_ext \<Rightarrow> ('ch, 'syn, 'ci, 'g) network \<Rightarrow> state \<Rightarrow> real \<Rightarrow> int list
     \<Rightarrow> real list \<Rightarrow> ('ch, 'syn, 'ci, 'g) network \<times> (py_error + state)" where
  "step E self u dt i_inds i_current =
     bind_prog (step_prepare E u dt i_inds i_current) (\<lambda>l.
     bind_prog (step_voltages_args l dt) (\<lambda>args.
     bind_prog (step_voltages E args) (\<lambda>new_voltages.
     bind_prog (lift_error (item0 (l_new_channel_states l))) (\<lambda>final_state.
     lift_error (Inr (final_state(''voltages'' \<mapsto> concat new_voltages)))))))
     self"

section \<open>Example objects\<close>

text \<open>Stand-ins for the imported functions of \<open>init_morph\<close>; each returns at once.\<close>

definition stub_morph_ext :: morph_ext where
  "stub_morph_ext =
     \<lparr>merge_cells = (\<lambda>cumsum levels flag. Inr (concat levels)),
      compute_index_of_kid = (\<lambda>p. Inr (map (\<lambda>_. 0) p)),
      cum_indizes_of_kids = (\<lambda>xs k reset_at. Inr xs),
      jnp_getitem = (\<lambda>a idx. Inr (map (\<lambda>j. a ! nat j) idx))\<rparr>"

text \<open>Two cells of two compartments per branch: a root with two children, a root with one.\<close>

definition cell_a :: cell where
  "cell_a = \<lparr>cell_nseg = 2, cell_nbranches = 3, cell_parents = [- 1, 0, 0],
             cell_parents_in_each_level = [[- 1], [0, 0]],
             cell_branches_in_each_level = [[0], [1, 2]]\<rparr>"

definition cell_b :: cell where
  "cell_b = \<lparr>cell_nseg = 2, cell_nbranches = 2, cell_parents = [- 1, 0],
             cell_parents_in_each_level = [[- 1], [0]],
             cell_branches_in_each_level = [[0], [1]]\<rparr>"

text \<open>A network of \<open>cell_a\<close> and \<open>cell_b\<close> without synapses, before \<open>init_morph\<close>.\<close>

definition net_ab :: "(unit, unit, int list, real list) network" where
  "net_ab =
     \<lparr>cells = [cell_a, cell_b], nseg = 2,
      pre_syn_inds = [], pre_syn_cell_inds = [], grouped_post_syn_inds = [],
      grouped_post_syns = [],
      initialized_morph = False, initialized_conds = True,
      nbranches = [], cumsum_num_branches = [], max_num_kids = 0, comb_parents = [],
      comb_parents_in_each_level = [], comb_branches_in_each_level = [],
      comb_cum_kid_inds = [], comb_cum_kid_inds_in_each_level = [],
      nodes = None,
      coupling_conds_fwd = [], coupling_conds_bwd = [], branch_conds_fwd = None,
      branch_conds_bwd = [], summed_coupling_conds = [],
      branches = [[[()]]],
      params = [''radius'' \<mapsto> [1, 1], ''length'' \<mapsto> [10, 10]],
      syn_channels = (), parents = [- 1], kid_inds_in_each_level = [],
      parents_in_each_level = [], branches_in_each_level = [[0]]\<rparr>"

text \<open>
  A network of one cell of one branch of two compartments without synapses, as
  \<open>init_morph\<close> leaves it, its conductances set.
\<close>

definition net_one :: "(unit, unit, int list, real list) network" where
  "net_one =
     net_ab\<lparr>cells := [\<lparr>cell_nseg = 2, cell_nbranches = 1, cell_parents = [- 1],
                         cell_parents_in_each_level = [[- 1]],
                         cell_branches_in_each_level = [[0]]\<rparr>],
            initialized_morph := True,
            nbranches := [1], cumsum_num_branches := [0, 1], max_num_kids := 4,
            comb_parents := [- 1],
            nodes := Some \<lparr>comp_index = [0, 1], branch_index = [0, 0], cell_index = [0, 0]\<rparr>,
            coupling_conds_fwd := [[1]], coupling_conds_bwd := [[1]],
            branch_conds_fwd := Some [[]], branch_conds_bwd := [[]],
            summed_coupling_conds := [[1, 1]]\<rparr>"



section \<open>Properties of \<open>_build_parents\<close>\<close>

lemma positions_mem:
  "j \<in> set (positions P xs) \<longleftrightarrow> j < length xs \<and> P (xs ! j)"
  by (auto simp: positions_def)

lemma np_dtype_of_Int64: "list_all in_int64 xs \<Longrightarrow> np_dtype_of xs = Int64"
  by (auto simp: np_dtype_of_def list_all_iff list_ex_iff)

lemma np_where_eq_int64:
  assumes "list_all in_int64 xs" "in_int64 v"
  shows "np_where_eq N xs v = Inr (positions (\<lambda>x. x = v) xs)"
  using assms by (simp add: np_where_eq_def np_dtype_of_Int64 positions_def)

lemma parent_of_not_self:
  assumes "parent_of N lasts i b = Inr p"
  shows "p \<noteq> int i"
  using assms
  by (auto simp: parent_of_def split: list.splits sum.splits if_splits)

lemma parent_of_exact:
  assumes "parent_of N lasts i b = Inr p"
    and "b \<noteq> []"
    and "np_where_eq N lasts (hd b) = Inr (positions (\<lambda>x. x = hd b) lasts)"
  shows "(p = - 1 \<or> (0 \<le> p \<and> nat p < length lasts \<and> lasts ! nat p = hd b)) \<and>
         (positions (\<lambda>x. x = hd b) lasts = [i] \<longrightarrow> p = - 1)"
proof -
  from assms(2) obtain x xs where b: "b = x # xs" by (cases b) auto
  let ?ind = "positions (\<lambda>y. y = x) lasts"
  show ?thesis
  proof (cases "length ?ind = 1")
    case True
    then have "hd ?ind \<in> set ?ind" by (cases ?ind) auto
    then have "hd ?ind < length lasts \<and> lasts ! hd ?ind = x"
      by (simp add: positions_mem)
    with assms(1,3) b True show ?thesis
      by (auto simp: parent_of_def split: if_splits)
  next
    case False
    with assms(1,3) b show ?thesis
      by (auto simp: parent_of_def split: if_splits)
  qed
qed

lemma build_parents_loop_Inr:
  "build_parents_loop N lasts i bs = Inr ps \<Longrightarrow>
     length ps = length bs \<and>
     (\<forall>k<length bs. parent_of N lasts (i + k) (bs ! k) = Inr (ps ! k))"
proof (induction bs arbitrary: i ps)
  case Nil
  then show ?case by simp
next
  case (Cons b bs)
  from Cons.prems obtain p ps' where
    p: "parent_of N lasts i b = Inr p" and
    l: "build_parents_loop N lasts (Suc i) bs = Inr ps'" and
    ps: "ps = p # ps'"
    by (auto split: sum.splits)
  from Cons.IH [OF l] have
    ih: "length ps' = length bs"
        "\<And>k. k < length bs \<Longrightarrow> parent_of N lasts (Suc i + k) (bs ! k) = Inr (ps' ! k)"
    by auto
  show ?case
  proof (intro conjI allI impI)
    show "length ps = length (b # bs)" using ih(1) ps by simp
  next
    fix k assume "k < length (b # bs)"
    then show "parent_of N lasts (i + k) ((b # bs) ! k) = Inr (ps ! k)"
      using p ih(2) ps by (cases k) auto
  qed
qed

text \<open>
  C10, as the code has it. Whenever \<open>_build_parents\<close> returns a parent array, it has
  one entry per branch and no branch is its own parent. When the first and the last
  node index of every branch fit \<open>int64\<close>, so that numpy compares them exactly, every
  entry is either the root sentinel \<open>-1\<close> or the index of a branch whose last node
  is the first node of the branch, and a branch whose only match is itself gets \<open>-1\<close>.
\<close>

theorem build_parents_no_self_reference:
  assumes "build_parents N all_branches = Inr ps"
  shows "length ps = length all_branches \<and>
         (\<forall>i<length all_branches. ps ! i \<noteq> int i) \<and>
         (list_all (\<lambda>b. in_int64 (hd b) \<and> in_int64 (last b)) all_branches \<longrightarrow>
          (\<forall>i<length all_branches.
             (ps ! i = - 1 \<or>
              (0 \<le> ps ! i \<and> nat (ps ! i) < length all_branches \<and>
               last (all_branches ! nat (ps ! i)) = hd (all_branches ! i))) \<and>
             (positions (\<lambda>x. x = hd (all_branches ! i)) (map last all_branches) = [i]
                \<longrightarrow> ps ! i = - 1)))"
proof -
  let ?lasts = "map last all_branches"
  from assms have ne: "[] \<notin> set all_branches"
    and loop: "build_parents_loop N ?lasts 0 all_branches = Inr ps"
    by (auto simp: build_parents_def all_last_inds_of_def split: if_splits)
  from build_parents_loop_Inr [OF loop] have
    len: "length ps = length all_branches" and
    each: "\<And>k. k < length all_branches \<Longrightarrow>
             parent_of N ?lasts k (all_branches ! k) = Inr (ps ! k)"
    by auto
  have self: "\<forall>i<length all_branches. ps ! i \<noteq> int i"
    using each parent_of_not_self by blast
  have exact: "(ps ! i = - 1 \<or>
              (0 \<le> ps ! i \<and> nat (ps ! i) < length all_branches \<and>
               last (all_branches ! nat (ps ! i)) = hd (all_branches ! i))) \<and>
             (positions (\<lambda>x. x = hd (all_branches ! i)) ?lasts = [i] \<longrightarrow> ps ! i = - 1)"
    if r: "list_all (\<lambda>b. in_int64 (hd b) \<and> in_int64 (last b)) all_branches"
      and i: "i < length all_branches" for i
  proof -
    from i ne have b: "all_branches ! i \<noteq> []" by (metis nth_mem)
    from r have "list_all in_int64 ?lasts" by (simp add: list_all_iff)
    moreover from r i have "in_int64 (hd (all_branches ! i))" by (simp add: list_all_length)
    ultimately have w: "np_where_eq N ?lasts (hd (all_branches ! i))
        = Inr (positions (\<lambda>x. x = hd (all_branches ! i)) ?lasts)"
      by (rule np_where_eq_int64)
    from parent_of_exact [OF each [OF i] b w] show ?thesis by auto
  qed
  from len self exact show ?thesis by blast
qed

theorem build_parents_no_self_reference_witness:
  "build_parents (\<lambda>xs v. Inr []) [[1, 2, 3], [3, 4], [3, 5], [7, 7]] = Inr [- 1, 0, 0, - 1] \<and>
   list_all (\<lambda>b. in_int64 (hd b) \<and> in_int64 (last b)) [[1, 2, 3], [3, 4], [3, 5], [7, 7]] \<and>
   positions (\<lambda>x. x = hd [7, 7]) (map last [[1, 2, 3], [3, 4], [3, 5], [7, 7 :: int]]) = [3]"
proof -
  have r: "build_parents (\<lambda>xs v. Inr []) [[1, 2, 3], [3, 4], [3, 5], [7, 7]] = Inr [- 1, 0, 0, - 1]"
    by code_simp
  have b: "list_all (\<lambda>b. in_int64 (hd b) \<and> in_int64 (last b)) [[1, 2, 3], [3, 4], [3, 5], [7, 7]]"
    by (simp add: in_int64_def)
  have p: "positions (\<lambda>x. x = hd [7, 7]) (map last [[1, 2, 3], [3, 4], [3, 5], [7, 7 :: int]]) = [3]"
    by code_simp
  from build_parents_no_self_reference [OF r] r b p show ?thesis by simp
qed

text \<open>
  The claim C10 as stated fails on three branches whose last nodes \<open>2^63\<close>, \<open>-1\<close>
  and \<open>7\<close> make a \<open>float64\<close> array: the first node \<open>2^63 + 1\<close> of branch 2 rounds
  to \<open>2^63\<close>, and branch 2 gets the parent 0, whose last node is another one. The
  parameter is not consulted on this input.
\<close>

theorem build_parents_float64_counterexample:
  "build_parents (\<lambda>xs v. Inr [])
     [[0, 9223372036854775808], [0, - 1], [9223372036854775809, 7]] = Inr [- 1, - 1, 0] \<and>
   last [0, 9223372036854775808 :: int] \<noteq> hd [9223372036854775809, 7]"
proof -
  have "build_parents (\<lambda>xs v. Inr [])
     [[0, 9223372036854775808], [0, - 1], [9223372036854775809, 7]] = Inr [- 1, - 1, 0]"
    by code_simp
  then show ?thesis by simp
qed

section \<open>Properties of \<open>Network.__getattr__\<close>\<close>

text \<open>
  C9. \<open>__getattr__\<close>, which Python calls for a name that is no ordinary attribute,
  raises AssertionError for every name but \<open>cell\<close>. It returns only for \<open>cell\<close>, and
  then a \<open>CellView\<close> of the object and its \<open>nodes\<close> table; while no \<open>nodes\<close> attribute
  is bound, the lookup of \<open>cell\<close> raises AssertionError too.
\<close>

theorem network_getattr_only_cell:
  "(key \<noteq> ''cell'' \<longrightarrow> network_getattr self key = Inl AssertionError) \<and>
   (\<forall>v. network_getattr self key = Inr v \<longrightarrow>
          key = ''cell'' \<and> (\<exists>tbl. nodes self = Some tbl \<and> v = CellView self tbl)) \<and>
   (\<forall>tbl. nodes self = Some tbl \<longrightarrow> network_getattr self ''cell'' = Inr (CellView self tbl)) \<and>
   (nodes self = None \<longrightarrow> network_getattr self ''cell'' = Inl AssertionError)"
  by (auto simp: network_getattr_def split: option.splits if_splits)

theorem network_getattr_only_cell_witness:
  "network_getattr net_one ''cell''
     = Inr (CellView net_one \<lparr>comp_index = [0, 1], branch_index = [0, 0], cell_index = [0, 0]\<rparr>) \<and>
   network_getattr net_one ''nodes'' = Inl AssertionError \<and>
   network_getattr net_ab ''cell'' = Inl AssertionError"
  using network_getattr_only_cell [of "''nodes''" net_one]
    network_getattr_only_cell [of "''cell''" net_one]
    network_getattr_only_cell [of "''cell''" net_ab]
  by (simp add: net_one_def net_ab_def)

section \<open>Properties of \<open>Network.init_morph\<close>\<close>

lemma bind_error_Inr:
  "bind_error m f = Inr y \<longleftrightarrow> (\<exists>x. m = Inr x \<and> f x = Inr y)"
  by (cases m) (simp_all add: bind_error_def)

lemma concat_nth_offset:
  "c < length xss \<Longrightarrow> k < length (xss ! c) \<Longrightarrow>
     concat xss ! (sum_list (map length (take c xss)) + k) = xss ! c ! k"
proof (induction xss arbitrary: c)
  case Nil
  then show ?case by simp
next
  case (Cons xs xss)
  show ?case
  proof (cases c)
    case 0
    with Cons.prems show ?thesis by (simp add: nth_append)
  next
    case (Suc c')
    with Cons.prems have "concat xss ! (sum_list (map length (take c' xss)) + k) = xss ! c' ! k"
      by (intro Cons.IH) auto
    with Suc show ?thesis by (simp add: nth_append add.assoc)
  qed
qed

lemma length_cumsum_from: "length (cumsum_from acc xs) = length xs"
  by (induction xs arbitrary: acc) auto

lemma nth_cumsum_from:
  "i < length xs \<Longrightarrow> cumsum_from acc xs ! i = acc + sum_list (take (Suc i) xs)"
proof (induction xs arbitrary: acc i)
  case Nil
  then show ?case by simp
next
  case (Cons x xs)
  then show ?case by (cases i) (auto simp: add.assoc)
qed


lemma sum_list_map_of_nat:
  "sum_list (map of_nat xs) = (of_nat (sum_list xs) :: 32 word)"
  by (induction xs) auto

lemma cumsum_num_branches_of_Inr:
  assumes "cumsum_num_branches_of nbs = Inr cs"
  shows "cs = jnp_cumsum (0 # map of_nat nbs)" and "list_all (\<lambda>n. n < 2 ^ 31) nbs"
  using assms
  by (auto simp: cumsum_num_branches_of_def jnp_asarray_def bind_error_def list_all_iff
      list_ex_iff not_le split: if_splits)

lemma nth_jnp_cumsum:
  "c \<le> length nbs \<Longrightarrow>
     jnp_cumsum (0 # map of_nat nbs) ! c = (of_nat (sum_list (take c nbs)) :: 32 word)"
  by (simp add: jnp_cumsum_def nth_cumsum_from take_map sum_list_map_of_nat
      del: cumsum_from.simps)

lemma length_jnp_cumsum: "length (jnp_cumsum (0 # map of_nat nbs)) = Suc (length nbs)"
  by (simp add: jnp_cumsum_def length_cumsum_from del: cumsum_from.simps)

lemma sint_of_nat_32:
  "n < 2 ^ 31 \<Longrightarrow> sint (of_nat n :: 32 word) = int n"
proof -
  assume "n < 2 ^ 31"
  then have "int n < 2 ^ 31" by (metis of_nat_less_iff of_nat_numeral of_nat_power)
  then have "signed_take_bit 31 (int n) = int n"
    by (intro signed_take_bit_int_eq_self) simp_all
  then show ?thesis by (simp add: signed_of_nat)
qed

lemma length_at_1_add: "length (at_1_add p x) = length p"
  by (cases p) (simp_all add: at_1_add_def)

lemma nth_at_1_add:
  "k < length p \<Longrightarrow> at_1_add p x ! k = (if k = 0 then p ! 0 else p ! k + x)"
  by (cases p; cases k) (simp_all add: at_1_add_def)

lemma comb_parents_of_Inr:
  assumes "comb_parents_of cumsum ps = Inr cp"
  shows "cp = concat (map (\<lambda>(i, p). at_1_add p (cumsum ! i)) (enumerate 0 ps))"
  using assms by (simp add: comb_parents_of_def jnp_concatenate_def split: if_splits)

lemma nth_comb_parents:
  assumes "comb_parents_of cumsum ps = Inr cp" "c < length ps" "k < length (ps ! c)"
  shows "cp ! (sum_list (map length (take c ps)) + k)
           = (if k = 0 then ps ! c ! 0 else ps ! c ! k + cumsum ! c)"
proof -
  let ?xss = "map (\<lambda>(i, p). at_1_add p (cumsum ! i)) (enumerate 0 ps)"
  have c: "c < length ?xss" using assms(2) by simp
  have xc: "?xss ! c = at_1_add (ps ! c) (cumsum ! c)"
    using assms(2) by (simp add: nth_enumerate_eq)
  have len: "map length ?xss = map length ps"
    by (rule nth_equalityI) (simp_all add: nth_enumerate_eq length_at_1_add)
  have "concat ?xss ! (sum_list (map length (take c ?xss)) + k) = ?xss ! c ! k"
    using c assms(3) xc by (intro concat_nth_offset) (simp_all add: length_at_1_add)
  moreover have "map length (take c ?xss) = map length (take c ps)"
    using len by (metis take_map)
  ultimately show ?thesis
    using comb_parents_of_Inr [OF assms(1)] xc assms(3) by (simp add: nth_at_1_add)
qed

lemma length_comb_parents:
  assumes "comb_parents_of cumsum ps = Inr cp"
  shows "length cp = sum_list (map length ps)"
proof -
  let ?xss = "map (\<lambda>(i, p). at_1_add p (cumsum ! i)) (enumerate 0 ps)"
  have len: "map length ?xss = map length ps"
    by (rule nth_equalityI) (simp_all add: nth_enumerate_eq length_at_1_add)
  show ?thesis
    using comb_parents_of_Inr [OF assms] len by (simp add: length_concat)
qed


lemma init_morph_Inr:
  assumes "init_morph X self = Inr net"
  shows "nbranches net = map cell_nbranches (cells self)"
    and "cumsum_num_branches_of (map cell_nbranches (cells self)) = Inr (cumsum_num_branches net)"
    and "comb_parents_of (cumsum_num_branches net) (map cell_parents (cells self))
           = Inr (comb_parents net)"
    and "\<exists>tbl. nodes_of (nseg self) (map cell_nbranches (cells self)) = Inr tbl \<and> nodes net = Some tbl"
    and "max_num_kids net = 4" and "initialized_morph net"
    and "cells net = cells self" and "nseg net = nseg self"
  using assms by (auto simp: init_morph_def Let_def bind_error_Inr)

lemma sum_list_take_nth_le:
  fixes nbs :: "nat list"
  shows "c < length nbs \<Longrightarrow> sum_list (take c nbs) + nbs ! c \<le> sum_list nbs"
proof -
  assume c: "c < length nbs"
  have "nbs = take c nbs @ nbs ! c # drop (Suc c) nbs"
    using c by (rule id_take_nth_drop)
  then have "sum_list nbs = sum_list (take c nbs) + nbs ! c + sum_list (drop (Suc c) nbs)"
    by (metis add.assoc sum_list.Cons sum_list_append)
  then show ?thesis by simp
qed

lemma cell_index_lengths:
  "map length (map (\<lambda>(i, b). replicate (n * b) i) (enumerate 0 nbs)) = map (\<lambda>b. n * b) nbs"
  by (rule nth_equalityI) (simp_all add: nth_enumerate_eq)

lemma length_cell_index:
  "length (concat (map (\<lambda>(i, b). replicate (n * b) i) (enumerate 0 nbs))) = n * sum_list nbs"
proof -
  have "length (concat (map (\<lambda>(i, b). replicate (n * b) i) (enumerate 0 nbs)))
          = sum_list (map (\<lambda>b. n * b) nbs)"
    by (simp only: length_concat cell_index_lengths)
  then show ?thesis by (simp add: sum_list_const_mult)
qed

lemma nth_cell_index:
  assumes "c < length nbs" "r < n * nbs ! c"
  shows "concat (map (\<lambda>(i, b). replicate (n * b) i) (enumerate 0 nbs))
           ! (n * sum_list (take c nbs) + r) = c"
proof -
  let ?xss = "map (\<lambda>(i, b). replicate (n * b) i) (enumerate 0 nbs)"
  have c: "c < length ?xss" using assms(1) by simp
  have xc: "?xss ! c = replicate (n * nbs ! c) c"
    using assms(1) by (simp add: nth_enumerate_eq)
  have "map length (take c ?xss) = map (\<lambda>b. n * b) (take c nbs)"
    using cell_index_lengths [of n nbs] by (metis take_map)
  then have off: "sum_list (map length (take c ?xss)) = n * sum_list (take c nbs)"
    by (simp add: sum_list_const_mult)
  have "concat ?xss ! (sum_list (map length (take c ?xss)) + r) = ?xss ! c ! r"
    using c assms(2) xc by (intro concat_nth_offset) simp_all
  then show ?thesis using off xc assms(2) by simp
qed

lemma nodes_of_Inr:
  "nodes_of n nbs =
     Inr \<lparr>comp_index = [0..<n * sum_list nbs],
          branch_index = map (\<lambda>i. i div n) [0..<n * sum_list nbs],
          cell_index = concat (map (\<lambda>(i, b). replicate (n * b) i) (enumerate 0 nbs))\<rparr>"
  by (simp add: nodes_of_def DataFrame_def length_cell_index)

lemma triple_index_bound:
  fixes nbs :: "nat list"
  assumes "c < length nbs" "k < nbs ! c" "j < n"
  shows "(sum_list (take c nbs) + k) * n + j < n * sum_list nbs"
proof -
  have "Suc (sum_list (take c nbs) + k) \<le> sum_list nbs"
    using sum_list_take_nth_le [OF assms(1)] assms(2) by simp
  then have "Suc (sum_list (take c nbs) + k) * n \<le> sum_list nbs * n"
    by (rule mult_le_mono1)
  with assms(3) show ?thesis by (simp add: mult.commute)
qed

lemma triple_offset:
  fixes n :: nat
  assumes "k < b" "j < n"
  shows "k * n + j < n * b"
proof -
  have "Suc k * n \<le> b * n" using assms(1) by (intro mult_le_mono1) simp
  with assms(2) show ?thesis by (simp add: mult.commute)
qed

lemma replicate_numeral_unfold:
  "replicate (numeral k) x = x # replicate (pred_numeral k) x"
  by (simp add: numeral_eq_Suc)

lemmas init_morph_eval =
  init_morph_def stub_morph_ext_def bind_error_def item0_def cumsum_num_branches_of_def
  jnp_asarray_def jnp_cumsum_def comb_parents_of_def
  jnp_concatenate_def at_1_add_def enumerate_eq_zip nodes_of_def DataFrame_def upt_rec
  replicate_numeral_unfold

lemma init_morph_net_ab:
  "init_morph stub_morph_ext net_ab =
     Inr (net_ab\<lparr>nbranches := [3, 2],
                cumsum_num_branches := [0, 3, 5],
                max_num_kids := 4,
                comb_parents := [- 1, 0, 0, - 1, 3],
                comb_parents_in_each_level := [[- 1], [0, 0], [- 1], [0]],
                comb_branches_in_each_level := [[0], [1, 2], [0], [1]],
                comb_cum_kid_inds := [0, 0, 0, 0, 0],
                comb_cum_kid_inds_in_each_level := [[0], [0, 0], [0], [0]],
                nodes := Some \<lparr>comp_index = [0, 1, 2, 3, 4, 5, 6, 7, 8, 9],
                                branch_index = [0, 0, 1, 1, 2, 2, 3, 3, 4, 4],
                                cell_index = [0, 0, 0, 0, 0, 0, 1, 1, 1, 1]\<rparr>,
                initialized_morph := True\<rparr>)"
  by (simp add: init_morph_eval net_ab_def cell_a_def cell_b_def)

text \<open>
  C5. When \<open>init_morph\<close> returns, the \<open>nodes\<close> table has one row per compartment,
  \<open>nseg * sum(nbranches)\<close> of them; row \<open>i\<close> has the compartment index \<open>i\<close> and the
  branch index \<open>i // nseg\<close>. Compartment \<open>j\<close> of branch \<open>k\<close> of cell \<open>c\<close> is the row
  \<open>(B + k) * nseg + j\<close>, where \<open>B\<close> is the number of branches of the cells before \<open>c\<close>:
  the compartments of a branch are contiguous, branches follow in input order in each
  cell, and cells follow in input order.
\<close>

theorem init_morph_nodes_layout:
  assumes "init_morph X self = Inr net"
  shows "\<exists>tbl. nodes net = Some tbl \<and>
           comp_index tbl = [0..<nseg self * sum_list (nbranches net)] \<and>
           length (branch_index tbl) = nseg self * sum_list (nbranches net) \<and>
           length (cell_index tbl) = nseg self * sum_list (nbranches net) \<and>
           (\<forall>i<nseg self * sum_list (nbranches net). branch_index tbl ! i = i div nseg self) \<and>
           (\<forall>c<length (cells self). \<forall>k<cell_nbranches (cells self ! c). \<forall>j<nseg self.
              (sum_list (map cell_nbranches (take c (cells self))) + k) * nseg self + j
                 < nseg self * sum_list (nbranches net) \<and>
              comp_index tbl ! ((sum_list (map cell_nbranches (take c (cells self))) + k) * nseg self + j)
                 = (sum_list (map cell_nbranches (take c (cells self))) + k) * nseg self + j \<and>
              branch_index tbl ! ((sum_list (map cell_nbranches (take c (cells self))) + k) * nseg self + j)
                 = sum_list (map cell_nbranches (take c (cells self))) + k \<and>
              cell_index tbl ! ((sum_list (map cell_nbranches (take c (cells self))) + k) * nseg self + j)
                 = c)"
proof -
  note m = init_morph_Inr [OF assms]
  let ?n = "nseg self"
  let ?nbs = "map cell_nbranches (cells self)"
  let ?N = "?n * sum_list ?nbs"
  let ?tbl = "\<lparr>comp_index = [0..<?N],
          branch_index = map (\<lambda>i. i div ?n) [0..<?N],
          cell_index = concat (map (\<lambda>(i, b). replicate (?n * b) i) (enumerate 0 ?nbs))\<rparr>"
  have nb: "nbranches net = ?nbs" by (rule m(1))
  from m(4) have tbl: "nodes net = Some ?tbl" by (auto simp: nodes_of_Inr)
  have triple: "(sum_list (map cell_nbranches (take c (cells self))) + k) * ?n + j < ?N \<and>
      comp_index ?tbl ! ((sum_list (map cell_nbranches (take c (cells self))) + k) * ?n + j)
         = (sum_list (map cell_nbranches (take c (cells self))) + k) * ?n + j \<and>
      branch_index ?tbl ! ((sum_list (map cell_nbranches (take c (cells self))) + k) * ?n + j)
         = sum_list (map cell_nbranches (take c (cells self))) + k \<and>
      cell_index ?tbl ! ((sum_list (map cell_nbranches (take c (cells self))) + k) * ?n + j)
         = c"
    if c: "c < length (cells self)" and k: "k < cell_nbranches (cells self ! c)" and j: "j < ?n"
    for c k j
  proof -
    let ?B = "sum_list (take c ?nbs)"
    let ?i = "(?B + k) * ?n + j"
    have B: "sum_list (map cell_nbranches (take c (cells self))) = ?B" by (simp add: take_map)
    have c': "c < length ?nbs" and k': "k < ?nbs ! c" using c k by simp_all
    have lt: "?i < ?N" using c' k' j by (rule triple_index_bound)
    have bi: "?i div ?n = ?B + k" using j by simp
    have eq: "?i = ?n * ?B + (k * ?n + j)" by (simp add: algebra_simps)
    have "k * ?n + j < ?n * ?nbs ! c" using k' j by (rule triple_offset)
    then have "cell_index ?tbl ! (?n * ?B + (k * ?n + j)) = c"
      using nth_cell_index [OF c', of "k * ?n + j" ?n] by simp
    then have ci: "cell_index ?tbl ! ?i = c" by (simp only: eq)
    show ?thesis unfolding B using lt bi ci by simp
  qed
  show ?thesis
    apply (rule exI [of _ ?tbl])
    apply (intro conjI)
         apply (rule tbl)
        apply (simp add: nb)
       apply (simp add: nb)
      apply (simp add: nb length_cell_index)
     apply (simp add: nb)
    apply (unfold nb)
    apply (intro allI impI)
    apply (rule triple)
      apply assumption+
    done
qed

theorem init_morph_nodes_layout_witness:
  "case init_morph stub_morph_ext net_ab of
     Inl e \<Rightarrow> False
   | Inr net \<Rightarrow>
       nodes net = Some \<lparr>comp_index = [0, 1, 2, 3, 4, 5, 6, 7, 8, 9],
                          branch_index = [0, 0, 1, 1, 2, 2, 3, 3, 4, 4],
                          cell_index = [0, 0, 0, 0, 0, 0, 1, 1, 1, 1]\<rparr>"
  using init_morph_nodes_layout [OF init_morph_net_ab]
  by (simp add: init_morph_net_ab)

text \<open>
  C6, as the code has it. When \<open>init_morph\<close> returns, \<open>cumsum_num_branches\<close> is the
  array of line 57 and has one entry more than there are cells. Entry \<open>c\<close> is the
  number of branches of the cells before \<open>c\<close> in the 32 bits of the array: it is that
  number when the number is below \<open>2^31\<close>, and the number wrapped around otherwise.
  \<open>comb_parents\<close> is the parent arrays one after the other; in the array of cell \<open>c\<close>,
  entry 0 is unchanged and every entry \<open>k \<ge> 1\<close> is the cell's entry plus
  \<open>cumsum_num_branches[c]\<close>, added in 32 bits.
\<close>

theorem init_morph_offsets_and_comb_parents:
  assumes "init_morph X self = Inr net"
  shows "cumsum_num_branches_of (map cell_nbranches (cells self)) = Inr (cumsum_num_branches net) \<and>
         length (cumsum_num_branches net) = Suc (length (cells self)) \<and>
         (\<forall>c\<le>length (cells self).
            cumsum_num_branches net ! c
              = of_nat (sum_list (map cell_nbranches (take c (cells self)))) \<and>
            (sum_list (map cell_nbranches (take c (cells self))) < 2 ^ 31 \<longrightarrow>
               sint (cumsum_num_branches net ! c)
                 = int (sum_list (map cell_nbranches (take c (cells self)))))) \<and>
         length (comb_parents net) = sum_list (map (\<lambda>c. length (cell_parents c)) (cells self)) \<and>
         (\<forall>c<length (cells self). \<forall>k<length (cell_parents (cells self ! c)).
            comb_parents net
              ! (sum_list (map (\<lambda>c. length (cell_parents c)) (take c (cells self))) + k)
              = (if k = 0 then cell_parents (cells self ! c) ! 0
                 else cell_parents (cells self ! c) ! k + cumsum_num_branches net ! c))"
proof -
  note m = init_morph_Inr [OF assms]
  let ?nbs = "map cell_nbranches (cells self)"
  let ?ps = "map cell_parents (cells self)"
  have cs: "cumsum_num_branches net = jnp_cumsum (0 # map of_nat ?nbs)"
    using cumsum_num_branches_of_Inr(1) [OF m(2)] .
  have len: "length (cumsum_num_branches net) = Suc (length (cells self))"
    unfolding cs using length_jnp_cumsum [of ?nbs] by simp
  have entry: "cumsum_num_branches net ! c
              = of_nat (sum_list (map cell_nbranches (take c (cells self)))) \<and>
            (sum_list (map cell_nbranches (take c (cells self))) < 2 ^ 31 \<longrightarrow>
               sint (cumsum_num_branches net ! c)
                 = int (sum_list (map cell_nbranches (take c (cells self)))))"
    if c: "c \<le> length (cells self)" for c
  proof -
    have e: "cumsum_num_branches net ! c
              = of_nat (sum_list (map cell_nbranches (take c (cells self))))"
      unfolding cs using nth_jnp_cumsum [of c ?nbs] c by (simp add: take_map)
    show ?thesis using e sint_of_nat_32 by simp
  qed
  have lcp: "length (comb_parents net) = sum_list (map (\<lambda>c. length (cell_parents c)) (cells self))"
    using length_comb_parents [OF m(3)] by (simp add: comp_def)
  have cp: "comb_parents net
        ! (sum_list (map (\<lambda>c. length (cell_parents c)) (take c (cells self))) + k)
        = (if k = 0 then cell_parents (cells self ! c) ! 0
           else cell_parents (cells self ! c) ! k + cumsum_num_branches net ! c)"
    if c: "c < length (cells self)" and k: "k < length (cell_parents (cells self ! c))" for c k
  proof -
    have "comb_parents net ! (sum_list (map length (take c ?ps)) + k)
            = (if k = 0 then ?ps ! c ! 0 else ?ps ! c ! k + cumsum_num_branches net ! c)"
      using c k by (intro nth_comb_parents [OF m(3)]) simp_all
    then show ?thesis using c by (simp add: take_map comp_def)
  qed
  from m(2) len entry lcp cp show ?thesis by blast
qed

theorem init_morph_offsets_and_comb_parents_witness:
  "case init_morph stub_morph_ext net_ab of
     Inl e \<Rightarrow> False
   | Inr net \<Rightarrow> map sint (cumsum_num_branches net) = [0, 3, 5] \<and>
                map sint (comb_parents net) = [- 1, 0, 0, - 1, 3]"
  using init_morph_offsets_and_comb_parents [OF init_morph_net_ab]
  by (simp add: init_morph_net_ab)

text \<open>
  The claim C6 as stated fails on cells of 2147483647, 1 and 0 branches: the branch
  count before the third cell is \<open>2^31\<close>, and the entry of the array is \<open>-2^31\<close>.
\<close>

theorem cumsum_num_branches_wraps_counterexample:
  "map_sum id (map sint) (cumsum_num_branches_of [2147483647, 1, 0])
     = Inr [0, 2147483647, - 2147483648, - 2147483648] \<and>
   sum_list (take 2 [2147483647, 1, 0 :: nat]) = 2147483648"
  by (simp add: cumsum_num_branches_of_def jnp_asarray_def jnp_cumsum_def bind_error_def)

section \<open>Properties of \<open>Network.step\<close>\<close>

lemma jnp_reshape_list_dim: "jnp_reshape a (ListDim nbs, d) = Inl TypeError"
  by (simp add: jnp_reshape_def)

lemma step_voltages_args_eq: "step_voltages_args l dt self = (self, Inl TypeError)"
  by (simp add: step_voltages_args_def Let_def bind_prog_def lift_error_def jnp_reshape_list_dim)

lemma step_eq:
  "step E self u dt i_inds i_current =
     (case step_prepare E u dt i_inds i_current self of
        (self', r) \<Rightarrow> (self', case r of Inl e \<Rightarrow> Inl e | Inr l \<Rightarrow> Inl TypeError))"
  by (simp add: step_def bind_prog_def step_voltages_args_eq split: prod.splits sum.splits)


















text \<open>
  C1, on the code. The first argument of the call of \<open>step_voltages\<close> is
  \<^verbatim>\<open>jnp.reshape(voltages, (nbranches, nseg_per_branch))\<close> with the list
  \<open>self.nbranches\<close> as first dimension: it raises TypeError, for every object and all
  local variables, so no argument reaches the solver and \<open>step\<close> is the same whatever
  \<open>step_voltages\<close> is. (The argument expressions of lines 169 to 171 name \<open>v_terms\<close>,
  \<open>const_terms\<close> and \<open>i_ext\<close> only; the synaptic terms are bound at line 154 and not
  read.)
\<close>

theorem step_never_calls_solver:
  "step_voltages_args l dt self = (self, Inl TypeError) \<and>
   step (E\<lparr>step_voltages := f\<rparr>) self u dt i_inds i_current = step E self u dt i_inds i_current"
  by (simp add: step_voltages_args_eq step_eq step_prepare_def cong: if_cong)

text \<open>
  C2, on the code. \<open>step\<close> returns no state, for every object and every input: it
  ends in an exception.
\<close>

theorem step_returns_no_state:
  "snd (step E self u dt i_inds i_current) \<noteq> Inr st"
  by (simp add: step_eq split: prod.splits sum.splits)


end
